theory Spec2Isabelle
  imports Main
begin

text \<open>
  A shallow embedding of the protocol adapters of the VS Code LLM server: the inbound
  adapters, which turn an OpenAI or an Anthropic chat request into messages of the
  language-model API; the backend adapter \<^verbatim>\<open>createMessage\<close>, which turns the model's
  response stream into chunks; the two non-streaming formatters; and the two streaming
  state machines.

  A \<^verbatim>\<open>for await\<close> loop over \<^verbatim>\<open>handler.createMessage(...)\<close> is a recursion over the chunks
  the generator yielded, and the generator's end (return or throw) is part of the input.
  A handler that writes server-sent events is the list of the frames it writes, in order.
  Identifiers and time stamps that the handlers draw (\<^verbatim>\<open>uuidv4()\<close>, \<^verbatim>\<open>Date.now()\<close>) are
  parameters. Debug logging is left out; the warning that the OpenAI inbound adapter logs
  for a tool call it skips is part of its result.
\<close>

section \<open>JavaScript values used by the adapters\<close>

text \<open>
  Tool-call arguments are JSON objects (\<^verbatim>\<open>Record<string, any>\<close>). The built-ins
  \<^verbatim>\<open>JSON.stringify\<close> and \<^verbatim>\<open>JSON.parse\<close> are not code of the server: every
  function below that calls one of them takes it as a parameter, \<open>stringify\<close> of type
  \<open>json \<Rightarrow> string\<close> and \<open>parse\<close> of type \<open>string \<Rightarrow> string + json\<close>, where
  \<open>Inl msg\<close> is the thrown \<^verbatim>\<open>SyntaxError\<close> with its message.
\<close>

datatype json =
    JNull
  | JBool bool
  | JNum int
  | JStr string
  | JArr "json list"
  | JObj "(string \<times> json) list"

text \<open>\<^verbatim>\<open>Array.prototype.join\<close> on an array of strings.\<close>

fun js_join :: "string \<Rightarrow> string list \<Rightarrow> string" where
  "js_join sep [] = []"
| "js_join sep [x] = x"
| "js_join sep (x # y # ys) = x @ sep @ js_join sep (y # ys)"

text \<open>A string is truthy when it is not empty.\<close>

definition truthy :: "string \<Rightarrow> bool" where
  "truthy s = (s \<noteq> [])"

text \<open>
  Instances of the two built-ins, for running the model on concrete inputs: a serialiser
  that writes a value without white space (escaping the double quote and the backslash in
  strings), and a parser that knows the values of finitely many texts and throws on every
  other text. The theorems below hold for every serialiser and every parser.
\<close>

fun show_nat :: "nat \<Rightarrow> string" where
  "show_nat n =
     (if n < 10 then [''0123456789'' ! n]
      else show_nat (n div 10) @ [''0123456789'' ! (n mod 10)])"

definition quoted :: "string \<Rightarrow> string" where
  "quoted s =
     [CHR 0x22]
     @ concat (map (\<lambda>c. if c = CHR 0x22 \<or> c = CHR 0x5C then [CHR 0x5C, c] else [c]) s)
     @ [CHR 0x22]"

primrec compactJson :: "json \<Rightarrow> string" where
  "compactJson JNull = ''null''"
| "compactJson (JBool b) = (if b then ''true'' else ''false'')"
| "compactJson (JNum n) = (if n < 0 then ''-'' @ show_nat (nat (- n)) else show_nat (nat n))"
| "compactJson (JStr s) = quoted s"
| "compactJson (JArr xs) = ''['' @ js_join '','' (map compactJson xs) @ '']''"
| "compactJson (JObj kvs) =
     ''{''
     @ js_join '',''
         (map (\<lambda>kv. quoted (fst kv) @ '':'' @ snd kv) (map (map_prod id compactJson) kvs))
     @ ''}''"

definition parseFrom :: "(string \<times> json) list \<Rightarrow> string \<Rightarrow> string + json" where
  "parseFrom table s =
     (case map_of table s of Some v \<Rightarrow> Inr v | None \<Rightarrow> Inl ''Unexpected token'')"

section \<open>The backend stream (models/types.ts)\<close>

text \<open>
  \<^verbatim>\<open>StreamChunk = TextChunk | ToolCallChunk | UsageChunk\<close>, the events that
  \<^verbatim>\<open>handler.createMessage\<close> yields.
\<close>

datatype StreamChunk =
    TextChunk string
  | ToolCallChunk string string json
  | UsageChunk int int

text \<open>
  What an async generator did when it was consumed to its end: the items it yielded, and
  whether it then returned or threw (with the error's message).
\<close>

datatype 'a generated =
    Completed "'a list"
  | Failed "'a list" string

fun yielded :: "'a generated \<Rightarrow> 'a list" where
  "yielded (Completed xs) = xs"
| "yielded (Failed xs err) = xs"

fun isUsage :: "StreamChunk \<Rightarrow> bool" where
  "isUsage (UsageChunk i out) = True"
| "isUsage (TextChunk t) = False"
| "isUsage (ToolCallChunk i n a) = False"

section \<open>OpenAI wire types (models/openaiTypes.ts)\<close>

datatype MessageRole = RoleSystem | RoleUser | RoleAssistant | RoleTool

datatype PartType = PartText | PartImageUrl

record ContentPart =
  part_type :: PartType
  part_text :: "string option"
  part_image_url :: "json option"

text \<open>
  \<^verbatim>\<open>MessageContent = string | ContentPart[]\<close>; \<open>ContentNull\<close> is the \<^verbatim>\<open>null\<close> that
  an assistant message with tool calls carries on the wire and that the response builder
  writes (\<^verbatim>\<open>accumulatedText || null\<close>).
\<close>

datatype MessageContent =
    ContentString string
  | ContentParts "ContentPart list"
  | ContentNull

text \<open>
  \<^verbatim>\<open>function.arguments\<close> is declared a string; the inbound adapter tests
  \<^verbatim>\<open>typeof ... === 'string'\<close> and passes any other value through unparsed. The
  \<^verbatim>\<open>type\<close> of a tool call is always \<^verbatim>\<open>'function'\<close> and is not a field of the record.
\<close>

datatype ToolArguments =
    ArgumentsString string
  | ArgumentsObject json

record ToolCall =
  call_id :: string
  function_name :: string
  function_arguments :: ToolArguments

record ChatMessage =
  msg_role :: MessageRole
  msg_content :: MessageContent
  msg_tool_calls :: "ToolCall list option"
  msg_tool_call_id :: "string option"

record CompletionUsage =
  prompt_tokens :: int
  completion_tokens :: int
  total_tokens :: int

record ChatCompletionChoice =
  choice_index :: nat
  choice_message :: ChatMessage
  choice_finish_reason :: string

record ChatCompletionResponse =
  resp_id :: string
  resp_object :: string
  resp_created :: int
  resp_model :: string
  resp_choices :: "ChatCompletionChoice list"
  resp_usage :: CompletionUsage

section \<open>Messages of the language-model API and the server's log\<close>

text \<open>
  The parts of a \<^verbatim>\<open>vscode.LanguageModelChatMessage\<close>: a text part with its value, a
  tool-call part with call id, name and input, a tool-result part with call id and
  content parts. A message built from a string has that string as its one text part.
\<close>

datatype LanguageModelChatMessageRole = User | Assistant

datatype LanguageModelPart =
    LanguageModelTextPart string
  | LanguageModelToolCallPart string string json
  | LanguageModelToolResultPart string "LanguageModelPart list"

record LanguageModelChatMessage =
  lm_role :: LanguageModelChatMessageRole
  lm_content :: "LanguageModelPart list"

text \<open>A call of \<^verbatim>\<open>logger.warn\<close>: the message and the context object.\<close>

datatype LogEntry = Warn string "(string \<times> string) list"

section \<open>Backend adapter (VsCodeLmHandler.createMessage)\<close>
















section \<open>OpenAI inbound adapter (convertToVsCodeLmMessages)\<close>

text \<open>The \<^verbatim>\<open>switch\<close> on the role; \<^verbatim>\<open>default\<close> shares the branch of user and tool.\<close>

fun mapRole :: "MessageRole \<Rightarrow> LanguageModelChatMessageRole" where
  "mapRole RoleSystem = Assistant"
| "mapRole RoleAssistant = Assistant"
| "mapRole RoleUser = User"
| "mapRole RoleTool = User"

text \<open>Truthiness of \<^verbatim>\<open>message.content\<close> and of \<^verbatim>\<open>message.tool_call_id\<close>.\<close>

fun contentTruthy :: "MessageContent \<Rightarrow> bool" where
  "contentTruthy (ContentString s) = truthy s"
| "contentTruthy (ContentParts ps) = True"
| "contentTruthy ContentNull = False"

fun idTruthy :: "string option \<Rightarrow> bool" where
  "idTruthy None = False"
| "idTruthy (Some s) = truthy s"

text \<open>
  The value that \<^verbatim>\<open>JSON.stringify(message.content)\<close> serialises when the content of a
  tool message is not a string: the parts as objects, with the keys that are present (in
  the order of the interface).
\<close>

definition contentPartJson :: "ContentPart \<Rightarrow> json" where
  "contentPartJson p =
     JObj ([(''type'', JStr (case part_type p of PartText \<Rightarrow> ''text'' | PartImageUrl \<Rightarrow> ''image_url''))]
           @ (case part_text p of Some t \<Rightarrow> [(''text'', JStr t)] | None \<Rightarrow> [])
           @ (case part_image_url p of Some u \<Rightarrow> [(''image_url'', u)] | None \<Rightarrow> []))"

fun toolResult :: "(json \<Rightarrow> string) \<Rightarrow> MessageContent \<Rightarrow> string" where
  "toolResult stringify (ContentString s) = s"
| "toolResult stringify (ContentParts ps) = stringify (JArr (map contentPartJson ps))"
| "toolResult stringify ContentNull = stringify JNull"

text \<open>
  \<^verbatim>\<open>filter(part => part.type === 'text' && part.text).map(part => part.text).join('\n')\<close>
\<close>

definition textOfParts :: "ContentPart list \<Rightarrow> string" where
  "textOfParts ps =
     js_join ''\<newline>''
       (map (\<lambda>p. case part_text p of Some t \<Rightarrow> t | None \<Rightarrow> [])
          (filter (\<lambda>p. part_type p = PartText \<and>
                        (case part_text p of Some t \<Rightarrow> truthy t | None \<Rightarrow> False)) ps))"

fun textContent :: "MessageContent \<Rightarrow> string" where
  "textContent (ContentString s) = s"
| "textContent (ContentParts ps) = textOfParts ps"
| "textContent ContentNull = []"

text \<open>
  The parts pushed before the tool calls are looked at: the tool result of a tool
  message, or else the text part of a non-empty text.
\<close>

definition leadingParts :: "(json \<Rightarrow> string) \<Rightarrow> ChatMessage \<Rightarrow> LanguageModelPart list" where
  "leadingParts stringify m =
     (if msg_role m = RoleTool \<and> idTruthy (msg_tool_call_id m) \<and> contentTruthy (msg_content m)
      then [LanguageModelToolResultPart
              (case msg_tool_call_id m of Some i \<Rightarrow> i | None \<Rightarrow> [])
              [LanguageModelTextPart (toolResult stringify (msg_content m))]]
      else if truthy (textContent (msg_content m))
           then [LanguageModelTextPart (textContent (msg_content m))]
           else [])"

text \<open>
  The expression for \<^verbatim>\<open>args\<close> inside the \<^verbatim>\<open>try\<close> block: \<open>Inl\<close> is the exception that
  \<^verbatim>\<open>JSON.parse\<close> throws.
\<close>

fun decodeArguments :: "(string \<Rightarrow> string + json) \<Rightarrow> ToolArguments \<Rightarrow> string + json" where
  "decodeArguments parse (ArgumentsString s) = parse s"
| "decodeArguments parse (ArgumentsObject v) = Inr v"

text \<open>
  The loop over \<^verbatim>\<open>message.tool_calls\<close>, on the parts pushed so far and the log: the
  \<^verbatim>\<open>try\<close> block pushes the tool-call part, the \<^verbatim>\<open>catch\<close> block logs a warning and
  the loop goes on.
\<close>

fun pushToolCalls ::
  "(string \<Rightarrow> string + json) \<Rightarrow> ToolCall list \<Rightarrow> LanguageModelPart list \<times> LogEntry list
     \<Rightarrow> LanguageModelPart list \<times> LogEntry list" where
  "pushToolCalls parse [] (parts, log) = (parts, log)"
| "pushToolCalls parse (tc # tcs) (parts, log) =
     (case decodeArguments parse (function_arguments tc) of
        Inr args \<Rightarrow>
          pushToolCalls parse tcs
            (parts @ [LanguageModelToolCallPart (call_id tc) (function_name tc) args], log)
      | Inl err \<Rightarrow>
          pushToolCalls parse tcs
            (parts, log @ [Warn ''Failed to parse tool call arguments''
                             [(''toolCallId'', call_id tc), (''error'', err)]]))"

text \<open>The content parts built for one message, and the warnings logged on the way.\<close>

definition contentParts ::
  "(string \<Rightarrow> string + json) \<Rightarrow> (json \<Rightarrow> string) \<Rightarrow> ChatMessage
     \<Rightarrow> LanguageModelPart list \<times> LogEntry list" where
  "contentParts parse stringify m =
     (case msg_tool_calls m of
        Some tcs \<Rightarrow>
          (if length tcs > 0 then pushToolCalls parse tcs (leadingParts stringify m, [])
           else (leadingParts stringify m, []))
      | None \<Rightarrow> (leadingParts stringify m, []))"

text \<open>
  \<^verbatim>\<open>convertToVsCodeLmMessages\<close> of the OpenAI handler: the messages for the backend and
  the warnings logged.
\<close>

fun openai_convertToVsCodeLmMessages ::
  "(string \<Rightarrow> string + json) \<Rightarrow> (json \<Rightarrow> string) \<Rightarrow> ChatMessage list
     \<Rightarrow> LanguageModelChatMessage list \<times> LogEntry list" where
  "openai_convertToVsCodeLmMessages parse stringify [] = ([], [])"
| "openai_convertToVsCodeLmMessages parse stringify (m # ms) =
     (case contentParts parse stringify m of
        (parts, log) \<Rightarrow>
          (case openai_convertToVsCodeLmMessages parse stringify ms of
             (rest, log') \<Rightarrow>
               ((if length parts > 0
                 then [\<lparr>lm_role = mapRole (msg_role m), lm_content = parts\<rparr>] else [])
                @ rest,
                log @ log')))"

section \<open>OpenAI non-streaming formatter (handleChatCompletion)\<close>

text \<open>
  The locals of \<^verbatim>\<open>handleChatCompletion\<close> that the \<^verbatim>\<open>for await\<close> loop updates.
\<close>

record Collected =
  accumulatedText :: string
  toolCalls :: "ToolCall list"
  inputTokens :: int
  outputTokens :: int

definition collected0 :: Collected where
  "collected0 = \<lparr>accumulatedText = [], toolCalls = [], inputTokens = 0, outputTokens = 0\<rparr>"

text \<open>One iteration of the loop body.\<close>

fun collectChunk :: "(json \<Rightarrow> string) \<Rightarrow> Collected \<Rightarrow> StreamChunk \<Rightarrow> Collected" where
  "collectChunk stringify c (TextChunk t) = c\<lparr>accumulatedText := accumulatedText c @ t\<rparr>"
| "collectChunk stringify c (ToolCallChunk i n a) =
     c\<lparr>toolCalls := toolCalls c @
        [\<lparr>call_id = i, function_name = n, function_arguments = ArgumentsString (stringify a)\<rparr>]\<rparr>"
| "collectChunk stringify c (UsageChunk i out) = c\<lparr>inputTokens := i, outputTokens := out\<rparr>"

fun collectChunks :: "(json \<Rightarrow> string) \<Rightarrow> Collected \<Rightarrow> StreamChunk list \<Rightarrow> Collected" where
  "collectChunks stringify c [] = c"
| "collectChunks stringify c (x # xs) = collectChunks stringify (collectChunk stringify c x) xs"

text \<open>\<^verbatim>\<open>accumulatedText || null\<close>.\<close>

definition textOrNull :: "string \<Rightarrow> MessageContent" where
  "textOrNull t = (if truthy t then ContentString t else ContentNull)"

definition buildChatCompletion ::
  "string \<Rightarrow> int \<Rightarrow> string \<Rightarrow> Collected \<Rightarrow> ChatCompletionResponse" where
  "buildChatCompletion uuid now model c =
     \<lparr>resp_id = ''chatcmpl-'' @ uuid,
      resp_object = ''chat.completion'',
      resp_created = now,
      resp_model = model,
      resp_choices =
        [\<lparr>choice_index = 0,
          choice_message =
            \<lparr>msg_role = RoleAssistant,
             msg_content = textOrNull (accumulatedText c),
             msg_tool_calls = (if length (toolCalls c) > 0 then Some (toolCalls c) else None),
             msg_tool_call_id = None\<rparr>,
          choice_finish_reason = (if length (toolCalls c) > 0 then ''tool_calls'' else ''stop'')\<rparr>],
      resp_usage =
        \<lparr>prompt_tokens = inputTokens c,
         completion_tokens = outputTokens c,
         total_tokens = inputTokens c + outputTokens c\<rparr>\<rparr>"

text \<open>
  \<^verbatim>\<open>handleChatCompletion\<close> over the run of the backend for this request. \<open>uuid\<close> is
  the value of \<^verbatim>\<open>uuidv4()\<close> and \<open>now\<close> of \<^verbatim>\<open>Math.floor(Date.now() / 1000)\<close>. A
  backend error is logged and thrown again: \<open>Inl\<close>.
\<close>

fun handleChatCompletion ::
  "(json \<Rightarrow> string) \<Rightarrow> string \<Rightarrow> int \<Rightarrow> string \<Rightarrow> StreamChunk generated
     \<Rightarrow> string + ChatCompletionResponse" where
  "handleChatCompletion stringify uuid now model (Completed chunks) =
     Inr (buildChatCompletion uuid now model (collectChunks stringify collected0 chunks))"
| "handleChatCompletion stringify uuid now model (Failed chunks err) = Inl err"

section \<open>Anthropic wire types (models/anthropicTypes.ts)\<close>

text \<open>
  \<^verbatim>\<open>ContentBlock = TextBlock | ImageBlock | ToolUseBlock | ToolResultBlock\<close>. An image
  block carries its source (type, media type, data); a tool result carries the id of the
  tool use and a content that is a string (\<open>Inl\<close>) or an array of blocks (\<open>Inr\<close>).
\<close>

datatype ContentBlock =
    TextBlock string
  | ImageBlock string string string
  | ToolUseBlock string string json
  | ToolResultBlock string "string + ContentBlock list"

datatype AnthropicRole = AnthropicUser | AnthropicAssistant

record AnthropicMessage =
  am_role :: AnthropicRole
  am_content :: "string + ContentBlock list"

datatype SystemPrompt =
    SystemString string
  | SystemBlocks "string list"

record Usage =
  input_tokens :: int
  output_tokens :: int

record MessagesResponse =
  mr_id :: string
  mr_type :: string
  mr_role :: string
  mr_content :: "ContentBlock list"
  mr_model :: string
  mr_stop_reason :: string
  mr_stop_sequence :: "string option"
  mr_usage :: Usage

section \<open>Anthropic inbound adapter (convertToVsCodeLmMessages)\<close>

text \<open>
  \<^verbatim>\<open>extractSystemPrompt\<close>: the empty string when there is no system prompt, the string
  itself, or the texts of the system blocks joined by a newline.
\<close>

fun extractSystemPrompt :: "SystemPrompt option \<Rightarrow> string" where
  "extractSystemPrompt None = []"
| "extractSystemPrompt (Some (SystemString s)) = s"
| "extractSystemPrompt (Some (SystemBlocks ts)) = js_join ''\<newline>'' ts"

text \<open>The message pushed for the system prompt, when the prompt is not empty.\<close>

definition systemMessage :: "SystemPrompt option \<Rightarrow> LanguageModelChatMessage list" where
  "systemMessage system =
     (if truthy (extractSystemPrompt system)
      then [\<lparr>lm_role = Assistant,
             lm_content = [LanguageModelTextPart (extractSystemPrompt system)]\<rparr>]
      else [])"

fun anthropicRole :: "AnthropicRole \<Rightarrow> LanguageModelChatMessageRole" where
  "anthropicRole AnthropicAssistant = Assistant"
| "anthropicRole AnthropicUser = User"

text \<open>
  \<^verbatim>\<open>resultContent\<close> of a tool-result block: the content when it is a string, else
  \<^verbatim>\<open>block.content.map(c => c.type === 'text' ? c.text : '').join('\n')\<close>.
\<close>

fun subBlockText :: "ContentBlock \<Rightarrow> string" where
  "subBlockText (TextBlock t) = t"
| "subBlockText (ImageBlock ty mt dt) = []"
| "subBlockText (ToolUseBlock i n inp) = []"
| "subBlockText (ToolResultBlock u c) = []"

fun resultContent :: "string + ContentBlock list \<Rightarrow> string" where
  "resultContent (Inl s) = s"
| "resultContent (Inr cs) = js_join ''\<newline>'' (map subBlockText cs)"

text \<open>The parts pushed for one content block; nothing is pushed for an image.\<close>

fun blockParts :: "ContentBlock \<Rightarrow> LanguageModelPart list" where
  "blockParts (TextBlock t) = [LanguageModelTextPart t]"
| "blockParts (ToolUseBlock i n inp) = [LanguageModelToolCallPart i n inp]"
| "blockParts (ToolResultBlock u c) =
     [LanguageModelToolResultPart u [LanguageModelTextPart (resultContent c)]]"
| "blockParts (ImageBlock ty mt dt) = []"

fun blocksParts :: "ContentBlock list \<Rightarrow> LanguageModelPart list" where
  "blocksParts [] = []"
| "blocksParts (b # bs) = blockParts b @ blocksParts bs"

fun messageParts :: "string + ContentBlock list \<Rightarrow> LanguageModelPart list" where
  "messageParts (Inl s) = [LanguageModelTextPart s]"
| "messageParts (Inr blocks) = blocksParts blocks"

fun convertMessages :: "AnthropicMessage list \<Rightarrow> LanguageModelChatMessage list" where
  "convertMessages [] = []"
| "convertMessages (m # ms) =
     (if length (messageParts (am_content m)) > 0
      then [\<lparr>lm_role = anthropicRole (am_role m), lm_content = messageParts (am_content m)\<rparr>]
      else [])
     @ convertMessages ms"

text \<open>\<^verbatim>\<open>convertToVsCodeLmMessages\<close> of the Anthropic handler.\<close>

definition anthropic_convertToVsCodeLmMessages ::
  "AnthropicMessage list \<Rightarrow> SystemPrompt option \<Rightarrow> LanguageModelChatMessage list" where
  "anthropic_convertToVsCodeLmMessages messages system =
     systemMessage system @ convertMessages messages"

section \<open>Anthropic non-streaming formatter (handleMessages)\<close>

record MessagesCollected =
  mc_accumulatedText :: string
  mc_contentBlocks :: "ContentBlock list"
  mc_inputTokens :: int
  mc_outputTokens :: int

definition messagesCollected0 :: MessagesCollected where
  "messagesCollected0 =
     \<lparr>mc_accumulatedText = [], mc_contentBlocks = [], mc_inputTokens = 0, mc_outputTokens = 0\<rparr>"

fun collectBlock :: "MessagesCollected \<Rightarrow> StreamChunk \<Rightarrow> MessagesCollected" where
  "collectBlock c (TextChunk t) = c\<lparr>mc_accumulatedText := mc_accumulatedText c @ t\<rparr>"
| "collectBlock c (ToolCallChunk i n a) =
     c\<lparr>mc_contentBlocks := mc_contentBlocks c @ [ToolUseBlock i n a]\<rparr>"
| "collectBlock c (UsageChunk i out) = c\<lparr>mc_inputTokens := i, mc_outputTokens := out\<rparr>"

fun collectBlocks :: "MessagesCollected \<Rightarrow> StreamChunk list \<Rightarrow> MessagesCollected" where
  "collectBlocks c [] = c"
| "collectBlocks c (x # xs) = collectBlocks (collectBlock c x) xs"

definition buildMessagesResponse :: "string \<Rightarrow> string \<Rightarrow> MessagesCollected \<Rightarrow> MessagesResponse" where
  "buildMessagesResponse uuid model c =
     \<lparr>mr_id = ''msg_'' @ uuid,
      mr_type = ''message'',
      mr_role = ''assistant'',
      mr_content =
        (if truthy (mc_accumulatedText c) then [TextBlock (mc_accumulatedText c)] else [])
          @ mc_contentBlocks c,
      mr_model = model,
      mr_stop_reason = (if length (mc_contentBlocks c) > 0 then ''tool_use'' else ''end_turn''),
      mr_stop_sequence = None,
      mr_usage = \<lparr>input_tokens = mc_inputTokens c, output_tokens = mc_outputTokens c\<rparr>\<rparr>"

text \<open>
  \<^verbatim>\<open>handleMessages\<close> over the run of the backend for this request; \<open>uuid\<close> is the
  value of \<^verbatim>\<open>uuidv4().replace(/-/g, '')\<close>. A backend error is logged and thrown again.
\<close>

fun handleMessages ::
  "string \<Rightarrow> string \<Rightarrow> StreamChunk generated \<Rightarrow> string + MessagesResponse" where
  "handleMessages uuid model (Completed chunks) =
     Inr (buildMessagesResponse uuid model (collectBlocks messagesCollected0 chunks))"
| "handleMessages uuid model (Failed chunks err) = Inl err"

section \<open>Anthropic streaming state machine (handleStreamingMessages)\<close>

text \<open>
  The frames written by \<^verbatim>\<open>sendAnthropicEvent\<close>; the SSE event name is the \<^verbatim>\<open>type\<close>
  field of the data in every call, so one constructor stands for both.
  \<^item> \<open>MessageStart id model usage\<close>: the other fields of the message are constants (empty
    content, null stop reason and stop sequence);
  \<^item> \<open>ContentBlockStart index content_block\<close>;
  \<^item> \<open>ContentBlockDelta index delta\<close>;
  \<^item> \<open>ContentBlockStop index\<close>;
  \<^item> \<open>MessageDelta stop_reason output_tokens\<close> (the stop sequence is null);
  \<^item> \<open>MessageStop\<close>;
  \<^item> \<open>ErrorEvent type message\<close>, written by \<^verbatim>\<open>handleSSEError\<close>.
\<close>

datatype BlockDelta =
    TextDelta string
  | InputJsonDelta string

datatype AnthropicEvent =
    MessageStart string string Usage
  | ContentBlockStart nat ContentBlock
  | ContentBlockDelta nat BlockDelta
  | ContentBlockStop nat
  | MessageDelta string int
  | MessageStop
  | ErrorEvent string string

record MessagesStream =
  ms_inputTokens :: int
  ms_outputTokens :: int
  contentBlockIndex :: nat
  currentBlockIsOpen :: bool
  hasToolUse :: bool

definition messagesStream0 :: MessagesStream where
  "messagesStream0 =
     \<lparr>ms_inputTokens = 0, ms_outputTokens = 0, contentBlockIndex = 0,
      currentBlockIsOpen = False, hasToolUse = False\<rparr>"

text \<open>One iteration of the loop: the frames it writes and the locals after it.\<close>

fun streamBlock ::
  "(json \<Rightarrow> string) \<Rightarrow> MessagesStream \<Rightarrow> StreamChunk \<Rightarrow> AnthropicEvent list \<times> MessagesStream" where
  "streamBlock stringify s (TextChunk t) =
     ((if \<not> currentBlockIsOpen s
       then [ContentBlockStart (contentBlockIndex s) (TextBlock [])] else [])
      @ [ContentBlockDelta (contentBlockIndex s) (TextDelta t)],
      s\<lparr>currentBlockIsOpen := True\<rparr>)"
| "streamBlock stringify s (ToolCallChunk i n a) =
     (let k = (if currentBlockIsOpen s then contentBlockIndex s + 1 else contentBlockIndex s)
      in ((if currentBlockIsOpen s then [ContentBlockStop (contentBlockIndex s)] else [])
          @ [ContentBlockStart k (ToolUseBlock i n (JObj [])),
             ContentBlockDelta k (InputJsonDelta (stringify a)),
             ContentBlockStop k],
          s\<lparr>hasToolUse := True, contentBlockIndex := k + 1, currentBlockIsOpen := False\<rparr>))"
| "streamBlock stringify s (UsageChunk i out) =
     ([], s\<lparr>ms_inputTokens := i, ms_outputTokens := out\<rparr>)"

fun streamBlocks ::
  "(json \<Rightarrow> string) \<Rightarrow> MessagesStream \<Rightarrow> StreamChunk list \<Rightarrow> AnthropicEvent list \<times> MessagesStream" where
  "streamBlocks stringify s [] = ([], s)"
| "streamBlocks stringify s (x # xs) =
     (case streamBlock stringify s x of
        (fs, s') \<Rightarrow> (case streamBlocks stringify s' xs of (gs, s'') \<Rightarrow> (fs @ gs, s'')))"

text \<open>The frames after the loop, when the backend run completed.\<close>

definition finishMessages :: "MessagesStream \<Rightarrow> AnthropicEvent list" where
  "finishMessages s =
     (if currentBlockIsOpen s then [ContentBlockStop (contentBlockIndex s)] else [])
     @ [MessageDelta (if hasToolUse s then ''tool_use'' else ''end_turn'') (ms_outputTokens s),
        MessageStop]"

text \<open>
  \<^verbatim>\<open>handleStreamingMessages\<close>: all the frames written to the response, in order, for
  a run of the backend. When the generator throws, the \<^verbatim>\<open>catch\<close> block calls
  \<^verbatim>\<open>handleSSEError\<close>, which writes one \<^verbatim>\<open>error\<close> event after the frames already
  sent; the closing frames are then not written.
\<close>

fun handleStreamingMessages ::
  "(json \<Rightarrow> string) \<Rightarrow> string \<Rightarrow> string \<Rightarrow> StreamChunk generated \<Rightarrow> AnthropicEvent list" where
  "handleStreamingMessages stringify uuid model (Completed chunks) =
     MessageStart (''msg_'' @ uuid) model \<lparr>input_tokens = 0, output_tokens = 0\<rparr>
     # (case streamBlocks stringify messagesStream0 chunks of (fs, s) \<Rightarrow> fs @ finishMessages s)"
| "handleStreamingMessages stringify uuid model (Failed chunks err) =
     MessageStart (''msg_'' @ uuid) model \<lparr>input_tokens = 0, output_tokens = 0\<rparr>
     # (case streamBlocks stringify messagesStream0 chunks of
          (fs, s) \<Rightarrow> fs @ [ErrorEvent ''api_error'' err])"

text \<open>
  Observations on a stream of frames: the indices of its \<^verbatim>\<open>content_block_start\<close>
  frames and of its \<^verbatim>\<open>content_block_stop\<close> frames, in the order of the stream.
\<close>

definition startedIndices :: "AnthropicEvent list \<Rightarrow> nat list" where
  "startedIndices fs = [i. ContentBlockStart i b \<leftarrow> fs]"

definition stoppedIndices :: "AnthropicEvent list \<Rightarrow> nat list" where
  "stoppedIndices fs = [i. ContentBlockStop i \<leftarrow> fs]"

text \<open>
  Observations on a backend run: the last event it yielded that is not a usage event is a
  text (the text block is then open when the run ends), and the run threw at such a
  moment.
\<close>

definition textOpenAtEnd :: "StreamChunk list \<Rightarrow> bool" where
  "textOpenAtEnd es =
     (case dropWhile isUsage (rev es) of TextChunk t # r \<Rightarrow> True | _ \<Rightarrow> False)"

fun throwsInOpenText :: "StreamChunk generated \<Rightarrow> bool" where
  "throwsInOpenText (Completed es) = False"
| "throwsInOpenText (Failed es err) = textOpenAtEnd es"

text \<open>
  Auxiliary notions for the proofs: the index the next \<^verbatim>\<open>content_block_start\<close> will
  carry, the index of the block that is open (if one is), and a check that every stop and
  every delta of a stream carries an index that is in \<open>S\<close> or was started earlier in the
  stream.
\<close>

definition nextStart :: "MessagesStream \<Rightarrow> nat" where
  "nextStart s = (if currentBlockIsOpen s then contentBlockIndex s + 1 else contentBlockIndex s)"

definition openIndex :: "MessagesStream \<Rightarrow> nat set" where
  "openIndex s = (if currentBlockIsOpen s then {contentBlockIndex s} else {})"

fun stopsFollowStarts :: "nat set \<Rightarrow> AnthropicEvent list \<Rightarrow> bool" where
  "stopsFollowStarts S [] = True"
| "stopsFollowStarts S (ContentBlockStart i b # fs) = stopsFollowStarts (insert i S) fs"
| "stopsFollowStarts S (ContentBlockStop i # fs) = (i \<in> S \<and> stopsFollowStarts S fs)"
| "stopsFollowStarts S (ContentBlockDelta i d # fs) = (i \<in> S \<and> stopsFollowStarts S fs)"
| "stopsFollowStarts S (f # fs) = stopsFollowStarts S fs"

section \<open>OpenAI streaming state machine (handleStreamingChatCompletion)\<close>

text \<open>
  A chunk has one choice, of index 0; the record holds the chunk's own fields and that
  choice's delta and finish reason. An entry of \<^verbatim>\<open>delta.tool_calls\<close> is a tool call
  with its index.
\<close>

record ChatCompletionDelta =
  delta_role :: "string option"
  delta_content :: "string option"
  delta_tool_calls :: "(nat \<times> ToolCall) list option"

record ChatCompletionChunk =
  chunk_id :: string
  chunk_object :: string
  chunk_created :: int
  chunk_model :: string
  chunk_delta :: ChatCompletionDelta
  chunk_finish_reason :: "string option"

text \<open>
  The frames written to the response: a chunk (\<^verbatim>\<open>sendOpenAIChunk\<close>), the terminator
  \<^verbatim>\<open>[DONE]\<close> (\<^verbatim>\<open>sendOpenAIDone\<close>), or the error object of \<^verbatim>\<open>handleSSEError\<close> with
  its message and type.
\<close>

datatype OpenAIFrame =
    ChunkFrame ChatCompletionChunk
  | DoneFrame
  | ErrorFrame string string

record ChatStream =
  isFirstChunk :: bool
  hasToolCalls :: bool
  toolCallIndex :: nat

definition chatStream0 :: ChatStream where
  "chatStream0 = \<lparr>isFirstChunk = True, hasToolCalls = False, toolCallIndex = 0\<rparr>"

definition mkChunk ::
  "string \<Rightarrow> int \<Rightarrow> string \<Rightarrow> ChatCompletionDelta \<Rightarrow> string option \<Rightarrow> OpenAIFrame" where
  "mkChunk cid created model d fr =
     ChunkFrame \<lparr>chunk_id = cid, chunk_object = ''chat.completion.chunk'', chunk_created = created,
                 chunk_model = model, chunk_delta = d, chunk_finish_reason = fr\<rparr>"

fun streamChunk ::
  "(json \<Rightarrow> string) \<Rightarrow> string \<Rightarrow> int \<Rightarrow> string \<Rightarrow> ChatStream \<Rightarrow> StreamChunk
     \<Rightarrow> OpenAIFrame list \<times> ChatStream" where
  "streamChunk stringify cid created model s (TextChunk t) =
     ([mkChunk cid created model
         \<lparr>delta_role = (if isFirstChunk s then Some ''assistant'' else None),
          delta_content = Some t, delta_tool_calls = None\<rparr> None],
      s\<lparr>isFirstChunk := False\<rparr>)"
| "streamChunk stringify cid created model s (ToolCallChunk i n a) =
     ((if isFirstChunk s
       then [mkChunk cid created model
               \<lparr>delta_role = Some ''assistant'', delta_content = None, delta_tool_calls = None\<rparr>
               None]
       else [])
      @ [mkChunk cid created model
           \<lparr>delta_role = None, delta_content = None,
            delta_tool_calls =
              Some [(toolCallIndex s,
                     \<lparr>call_id = i, function_name = n,
                      function_arguments = ArgumentsString (stringify a)\<rparr>)]\<rparr>
           None],
      s\<lparr>hasToolCalls := True, isFirstChunk := False, toolCallIndex := toolCallIndex s + 1\<rparr>)"
| "streamChunk stringify cid created model s (UsageChunk i out) =
     ([mkChunk cid created model
         \<lparr>delta_role = None, delta_content = None, delta_tool_calls = None\<rparr>
         (Some (if hasToolCalls s then ''tool_calls'' else ''stop''))],
      s)"

fun streamChunks ::
  "(json \<Rightarrow> string) \<Rightarrow> string \<Rightarrow> int \<Rightarrow> string \<Rightarrow> ChatStream \<Rightarrow> StreamChunk list
     \<Rightarrow> OpenAIFrame list \<times> ChatStream" where
  "streamChunks stringify cid created model s [] = ([], s)"
| "streamChunks stringify cid created model s (x # xs) =
     (case streamChunk stringify cid created model s x of
        (fs, s') \<Rightarrow>
          (case streamChunks stringify cid created model s' xs of (gs, s'') \<Rightarrow> (fs @ gs, s'')))"

text \<open>
  \<^verbatim>\<open>handleStreamingChatCompletion\<close>: all the frames written to the response, in
  order. After a completed run the terminator follows; when the generator throws,
  \<^verbatim>\<open>handleSSEError\<close> writes the error object instead.
\<close>

fun handleStreamingChatCompletion ::
  "(json \<Rightarrow> string) \<Rightarrow> string \<Rightarrow> int \<Rightarrow> string \<Rightarrow> StreamChunk generated \<Rightarrow> OpenAIFrame list" where
  "handleStreamingChatCompletion stringify uuid now model (Completed chunks) =
     fst (streamChunks stringify (''chatcmpl-'' @ uuid) now model chatStream0 chunks) @ [DoneFrame]"
| "handleStreamingChatCompletion stringify uuid now model (Failed chunks err) =
     fst (streamChunks stringify (''chatcmpl-'' @ uuid) now model chatStream0 chunks)
     @ [ErrorFrame err ''server_error'']"

text \<open>A frame whose delta carries \<^verbatim>\<open>role: 'assistant'\<close>.\<close>

fun carriesRole :: "OpenAIFrame \<Rightarrow> bool" where
  "carriesRole (ChunkFrame c) = (delta_role (chunk_delta c) = Some ''assistant'')"
| "carriesRole DoneFrame = False"
| "carriesRole (ErrorFrame m t) = False"

text \<open>A frame that is a completion chunk.\<close>

fun isChunk :: "OpenAIFrame \<Rightarrow> bool" where
  "isChunk (ChunkFrame c) = True"
| "isChunk DoneFrame = False"
| "isChunk (ErrorFrame m t) = False"

section \<open>The handlers of the revision without tool calls\<close>

text \<open>
  The repository also holds the earlier revision of the two handler modules
  (\<^verbatim>\<open>handlers/openaiHandler.ts\<close> and \<^verbatim>\<open>handlers/anthropicHandler.ts\<close>). It knows text and
  usage chunks only: a chunk of any other type falls through both branches of its loops.
  Its functions have the names of the functions above; here they carry the suffix
  \<open>_text\<close>.
\<close>

text \<open>
  \<^verbatim>\<open>convertToVsCodeLmMessages\<close> of the OpenAI handler: a message is passed on with its
  text as its one text part when the text is not empty; tool calls and tool results are
  not looked at.
\<close>

fun openai_convertToVsCodeLmMessages_text :: "ChatMessage list \<Rightarrow> LanguageModelChatMessage list" where
  "openai_convertToVsCodeLmMessages_text [] = []"
| "openai_convertToVsCodeLmMessages_text (m # ms) =
     (if truthy (textContent (msg_content m))
      then [\<lparr>lm_role = mapRole (msg_role m),
             lm_content = [LanguageModelTextPart (textContent (msg_content m))]\<rparr>]
      else [])
     @ openai_convertToVsCodeLmMessages_text ms"

text \<open>The loop of both non-streaming formatters, on (accumulated text, input tokens, output tokens).\<close>

fun collectText :: "string \<times> int \<times> int \<Rightarrow> StreamChunk list \<Rightarrow> string \<times> int \<times> int" where
  "collectText c [] = c"
| "collectText (t, i, out) (TextChunk t' # xs) = collectText (t @ t', i, out) xs"
| "collectText (t, i, out) (UsageChunk i' out' # xs) = collectText (t, i', out') xs"
| "collectText (t, i, out) (ToolCallChunk ci n a # xs) = collectText (t, i, out) xs"

fun handleChatCompletion_text ::
  "string \<Rightarrow> int \<Rightarrow> string \<Rightarrow> StreamChunk generated \<Rightarrow> string + ChatCompletionResponse" where
  "handleChatCompletion_text uuid now model (Completed chunks) =
     (case collectText ([], 0, 0) chunks of
        (t, i, out) \<Rightarrow>
          Inr \<lparr>resp_id = ''chatcmpl-'' @ uuid,
               resp_object = ''chat.completion'',
               resp_created = now,
               resp_model = model,
               resp_choices =
                 [\<lparr>choice_index = 0,
                   choice_message =
                     \<lparr>msg_role = RoleAssistant, msg_content = ContentString t,
                      msg_tool_calls = None, msg_tool_call_id = None\<rparr>,
                   choice_finish_reason = ''stop''\<rparr>],
               resp_usage =
                 \<lparr>prompt_tokens = i, completion_tokens = out, total_tokens = i + out\<rparr>\<rparr>)"
| "handleChatCompletion_text uuid now model (Failed chunks err) = Inl err"

text \<open>
  \<^verbatim>\<open>extractMessageContent\<close>: the string, or the texts of the text blocks joined by a
  newline.
\<close>

fun extractMessageContent :: "string + ContentBlock list \<Rightarrow> string" where
  "extractMessageContent (Inl s) = s"
| "extractMessageContent (Inr blocks) = js_join ''\<newline>'' [t. TextBlock t \<leftarrow> blocks]"

fun convertMessages_text :: "AnthropicMessage list \<Rightarrow> LanguageModelChatMessage list" where
  "convertMessages_text [] = []"
| "convertMessages_text (m # ms) =
     (if truthy (extractMessageContent (am_content m))
      then [\<lparr>lm_role = anthropicRole (am_role m),
             lm_content = [LanguageModelTextPart (extractMessageContent (am_content m))]\<rparr>]
      else [])
     @ convertMessages_text ms"

definition anthropic_convertToVsCodeLmMessages_text ::
  "AnthropicMessage list \<Rightarrow> SystemPrompt option \<Rightarrow> LanguageModelChatMessage list" where
  "anthropic_convertToVsCodeLmMessages_text messages system =
     systemMessage system @ convertMessages_text messages"

fun handleMessages_text ::
  "string \<Rightarrow> string \<Rightarrow> StreamChunk generated \<Rightarrow> string + MessagesResponse" where
  "handleMessages_text uuid model (Completed chunks) =
     (case collectText ([], 0, 0) chunks of
        (t, i, out) \<Rightarrow>
          Inr \<lparr>mr_id = ''msg_'' @ uuid,
               mr_type = ''message'',
               mr_role = ''assistant'',
               mr_content = [TextBlock t],
               mr_model = model,
               mr_stop_reason = ''end_turn'',
               mr_stop_sequence = None,
               mr_usage = \<lparr>input_tokens = i, output_tokens = out\<rparr>\<rparr>)"
| "handleMessages_text uuid model (Failed chunks err) = Inl err"

text \<open>
  \<^verbatim>\<open>handleStreamingMessages\<close>: the text block of index 0 is opened before the loop and
  closed after it; the loop writes one delta of index 0 for each text chunk.
\<close>

fun textDeltas :: "StreamChunk list \<Rightarrow> AnthropicEvent list" where
  "textDeltas [] = []"
| "textDeltas (TextChunk t # xs) = ContentBlockDelta 0 (TextDelta t) # textDeltas xs"
| "textDeltas (UsageChunk i out # xs) = textDeltas xs"
| "textDeltas (ToolCallChunk ci n a # xs) = textDeltas xs"

fun handleStreamingMessages_text ::
  "string \<Rightarrow> string \<Rightarrow> StreamChunk generated \<Rightarrow> AnthropicEvent list" where
  "handleStreamingMessages_text uuid model (Completed chunks) =
     [MessageStart (''msg_'' @ uuid) model \<lparr>input_tokens = 0, output_tokens = 0\<rparr>,
      ContentBlockStart 0 (TextBlock [])]
     @ textDeltas chunks
     @ [ContentBlockStop 0,
        MessageDelta ''end_turn'' (snd (snd (collectText ([], 0, 0) chunks))),
        MessageStop]"
| "handleStreamingMessages_text uuid model (Failed chunks err) =
     [MessageStart (''msg_'' @ uuid) model \<lparr>input_tokens = 0, output_tokens = 0\<rparr>,
      ContentBlockStart 0 (TextBlock [])]
     @ textDeltas chunks
     @ [ErrorEvent ''api_error'' err]"

section \<open>Properties of the non-streaming formatters\<close>

lemma collectChunks_append:
  "collectChunks stringify c (xs @ ys) = collectChunks stringify (collectChunks stringify c xs) ys"
  by (induction xs arbitrary: c) simp_all

lemma collectBlocks_append:
  "collectBlocks c (xs @ ys) = collectBlocks (collectBlocks c xs) ys"
  by (induction xs arbitrary: c) simp_all

lemma collectBlocks_text:
  "mc_accumulatedText (collectBlocks c es) = mc_accumulatedText c @ concat [t. TextChunk t \<leftarrow> es]"
  by (induction es arbitrary: c) (simp_all split: StreamChunk.split)

lemma collectBlocks_blocks:
  "mc_contentBlocks (collectBlocks c es) =
     mc_contentBlocks c @ [ToolUseBlock i n a. ToolCallChunk i n a \<leftarrow> es]"
  by (induction es arbitrary: c) (simp_all split: StreamChunk.split)

lemma tool_uses_nonempty:
  "(0 < length [ToolUseBlock i n a. ToolCallChunk i n a \<leftarrow> es]) =
     (\<exists>i n a. ToolCallChunk i n a \<in> set es)"
  by (induction es) (auto split: StreamChunk.split)

text \<open>
  Claim C1 (usage parity). When the backend run completes and its last event is
  \<open>UsageChunk i out\<close>, \<^verbatim>\<open>handleChatCompletion\<close> returns a response whose usage has
  \<open>prompt_tokens = i\<close> and \<open>completion_tokens = out\<close>, and \<^verbatim>\<open>handleMessages\<close> returns a
  response whose usage has \<open>input_tokens = i\<close> and \<open>output_tokens = out\<close>: the same pair
  under the two protocols' field names, whatever events came before.
\<close>

theorem usage_parity:
  "(\<exists>r. handleChatCompletion stringify uuid now model (Completed (es @ [UsageChunk i out])) = Inr r \<and>
        prompt_tokens (resp_usage r) = i \<and> completion_tokens (resp_usage r) = out) \<and>
   (\<exists>r. handleMessages uuid' model' (Completed (es @ [UsageChunk i out])) = Inr r \<and>
        input_tokens (mr_usage r) = i \<and> output_tokens (mr_usage r) = out)"
  by (simp add: buildChatCompletion_def buildMessagesResponse_def collectChunks_append
      collectBlocks_append)

text \<open>
  Claim C5 (scenario A). For the run \<open>TextChunk ''Hello''\<close>, \<open>TextChunk '' there''\<close>,
  \<open>UsageChunk 3 2\<close>, \<^verbatim>\<open>handleChatCompletion\<close> returns the response whose only choice has
  the message content \<open>''Hello there''\<close> (and no tool calls) and the finish reason
  \<open>''stop''\<close>, and whose usage is 3 prompt tokens, 2 completion tokens, 5 in total.
\<close>

theorem scenario_A_chat_completion:
  "handleChatCompletion stringify uuid now model
     (Completed [TextChunk ''Hello'', TextChunk '' there'', UsageChunk 3 2]) =
   Inr \<lparr>resp_id = ''chatcmpl-'' @ uuid,
        resp_object = ''chat.completion'',
        resp_created = now,
        resp_model = model,
        resp_choices =
          [\<lparr>choice_index = 0,
            choice_message =
              \<lparr>msg_role = RoleAssistant, msg_content = ContentString ''Hello there'',
               msg_tool_calls = None, msg_tool_call_id = None\<rparr>,
            choice_finish_reason = ''stop''\<rparr>],
        resp_usage = \<lparr>prompt_tokens = 3, completion_tokens = 2, total_tokens = 5\<rparr>\<rparr>"
  by (simp add: buildChatCompletion_def collected0_def textOrNull_def truthy_def)

text \<open>
  Claim C6. For every completed backend run, \<^verbatim>\<open>handleMessages\<close> returns a response
  whose content is: one text block holding the concatenation of all text chunks, present
  only when that concatenation is not empty; then one \<^verbatim>\<open>tool_use\<close> block per tool-call
  chunk, in the order of the calls. Its stop reason is \<open>''tool_use''\<close> when the run has a
  tool-call chunk and \<open>''end_turn''\<close> otherwise.
\<close>

theorem handleMessages_content_and_stop_reason:
  "\<exists>r. handleMessages uuid model (Completed es) = Inr r \<and>
     mr_content r =
       (if concat [t. TextChunk t \<leftarrow> es] \<noteq> []
        then [TextBlock (concat [t. TextChunk t \<leftarrow> es])] else [])
       @ [ToolUseBlock i n a. ToolCallChunk i n a \<leftarrow> es] \<and>
     mr_stop_reason r =
       (if (\<exists>i n a. ToolCallChunk i n a \<in> set es) then ''tool_use'' else ''end_turn'')"
proof -
  let ?c = "collectBlocks messagesCollected0 es"
  let ?r = "buildMessagesResponse uuid model ?c"
  have t: "mc_accumulatedText ?c = concat [t. TextChunk t \<leftarrow> es]"
    by (simp add: collectBlocks_text messagesCollected0_def)
  have b: "mc_contentBlocks ?c = [ToolUseBlock i n a. ToolCallChunk i n a \<leftarrow> es]"
    by (simp add: collectBlocks_blocks messagesCollected0_def)
  have "handleMessages uuid model (Completed es) = Inr ?r"
    by simp
  moreover have "mr_content ?r =
       (if concat [t. TextChunk t \<leftarrow> es] \<noteq> []
        then [TextBlock (concat [t. TextChunk t \<leftarrow> es])] else [])
       @ [ToolUseBlock i n a. ToolCallChunk i n a \<leftarrow> es]"
    unfolding buildMessagesResponse_def truthy_def t b by simp
  moreover have "mr_stop_reason ?r =
       (if (\<exists>i n a. ToolCallChunk i n a \<in> set es) then ''tool_use'' else ''end_turn'')"
    unfolding buildMessagesResponse_def b tool_uses_nonempty by simp
  ultimately show ?thesis
    by blast
qed

section \<open>Properties of the Anthropic streaming state machine\<close>

lemma startedIndices_append: "startedIndices (xs @ ys) = startedIndices xs @ startedIndices ys"
  by (simp add: startedIndices_def)

lemma stoppedIndices_append: "stoppedIndices (xs @ ys) = stoppedIndices xs @ stoppedIndices ys"
  by (simp add: stoppedIndices_def)

lemma startedIndices_simps [simp]:
  "startedIndices [] = []"
  "startedIndices (f # fs) =
     (case f of ContentBlockStart i b \<Rightarrow> [i] | _ \<Rightarrow> []) @ startedIndices fs"
  by (simp_all add: startedIndices_def)

lemma stoppedIndices_simps [simp]:
  "stoppedIndices [] = []"
  "stoppedIndices (f # fs) =
     (case f of ContentBlockStop i \<Rightarrow> [i] | _ \<Rightarrow> []) @ stoppedIndices fs"
  by (simp_all add: stoppedIndices_def)

lemma upt_append_upt: "a \<le> b \<Longrightarrow> b \<le> c \<Longrightarrow> [a..<b] @ [b..<c] = [a..<(c::nat)]"
  by (metis le_Suc_ex upt_add_eq_append)

lemma streamBlock_indices:
  assumes "streamBlock f s x = (fs, s')"
  shows "startedIndices fs = [nextStart s ..< nextStart s']"
    and "stoppedIndices fs = [contentBlockIndex s ..< contentBlockIndex s']"
    and "contentBlockIndex s \<le> contentBlockIndex s'"
    and "nextStart s \<le> nextStart s'"
  using assms by (cases x; auto simp: nextStart_def Let_def)+

lemma streamBlocks_indices:
  "streamBlocks f s es = (fs, s') \<Longrightarrow>
     startedIndices fs = [nextStart s ..< nextStart s'] \<and>
     stoppedIndices fs = [contentBlockIndex s ..< contentBlockIndex s'] \<and>
     contentBlockIndex s \<le> contentBlockIndex s' \<and> nextStart s \<le> nextStart s'"
proof (induction es arbitrary: s fs s')
  case Nil
  then show ?case by auto
next
  case (Cons x xs)
  obtain f1 s1 where step: "streamBlock f s x = (f1, s1)"
    by (cases "streamBlock f s x")
  obtain f2 s2 where rest: "streamBlocks f s1 xs = (f2, s2)"
    by (cases "streamBlocks f s1 xs")
  from Cons.prems step rest have fs: "fs = f1 @ f2" and s': "s' = s2"
    by simp_all
  note a = streamBlock_indices[OF step]
  note b = Cons.IH[OF rest]
  show ?case
    unfolding fs s' using a b
    by (simp add: upt_append_upt startedIndices_append stoppedIndices_append)
qed

lemma stopsFollowStarts_append:
  "stopsFollowStarts S (xs @ ys) =
     (stopsFollowStarts S xs \<and> stopsFollowStarts (S \<union> set (startedIndices xs)) ys)"
  by (induction S xs rule: stopsFollowStarts.induct) simp_all

lemma stopsFollowStarts_mono:
  "stopsFollowStarts S fs \<Longrightarrow> S \<subseteq> T \<Longrightarrow> stopsFollowStarts T fs"
  by (induction S fs arbitrary: T rule: stopsFollowStarts.induct) (auto simp: insert_mono)

lemma stopsFollowStarts_stop:
  "stopsFollowStarts S fs \<Longrightarrow> fs = pre @ ContentBlockStop i # post \<Longrightarrow>
     i \<in> S \<or> (\<exists>b. ContentBlockStart i b \<in> set pre)"
proof (induction pre arbitrary: S fs)
  case Nil
  then show ?case by simp
next
  case (Cons p pre)
  then show ?case
    by (cases p) fastforce+
qed

lemma stopsFollowStarts_delta:
  "stopsFollowStarts S fs \<Longrightarrow> fs = pre @ ContentBlockDelta i d # post \<Longrightarrow>
     i \<in> S \<or> (\<exists>b. ContentBlockStart i b \<in> set pre)"
proof (induction pre arbitrary: S fs)
  case Nil
  then show ?case by simp
next
  case (Cons p pre)
  then show ?case
    by (cases p) fastforce+
qed

lemma streamBlock_follow:
  assumes "streamBlock f s x = (fs, s')"
  shows "stopsFollowStarts (openIndex s) fs"
    and "openIndex s' \<subseteq> openIndex s \<union> set (startedIndices fs)"
proof -
  show "stopsFollowStarts (openIndex s) fs"
    using assms by (cases x) (auto simp: Let_def openIndex_def)
  show "openIndex s' \<subseteq> openIndex s \<union> set (startedIndices fs)"
    using assms by (cases x) (auto simp: Let_def openIndex_def)
qed

lemma streamBlocks_follow:
  "streamBlocks f s es = (fs, s') \<Longrightarrow>
     stopsFollowStarts (openIndex s) fs \<and>
     openIndex s' \<subseteq> openIndex s \<union> set (startedIndices fs)"
proof (induction es arbitrary: s fs s')
  case Nil
  then show ?case by auto
next
  case (Cons x xs)
  obtain f1 s1 where step: "streamBlock f s x = (f1, s1)"
    by (cases "streamBlock f s x")
  obtain f2 s2 where rest: "streamBlocks f s1 xs = (f2, s2)"
    by (cases "streamBlocks f s1 xs")
  from Cons.prems step rest have fs: "fs = f1 @ f2" and s': "s' = s2"
    by simp_all
  note a = streamBlock_follow[OF step]
  from Cons.IH[OF rest] have b: "stopsFollowStarts (openIndex s1) f2"
    and c: "openIndex s2 \<subseteq> openIndex s1 \<union> set (startedIndices f2)"
    by simp_all
  have "stopsFollowStarts (openIndex s) (f1 @ f2)"
    unfolding stopsFollowStarts_append using a(1) stopsFollowStarts_mono[OF b a(2)] by simp
  moreover have "openIndex s2 \<subseteq> openIndex s \<union> set (startedIndices (f1 @ f2))"
    unfolding startedIndices_append set_append using c a(2) by blast
  ultimately show ?case
    unfolding fs s' by blast
qed

text \<open>
  Claim C2 (scenario C). For the completed run \<open>ToolCallChunk ''t1'' ''get_weather''\<close>
  with arguments \<open>{location: ''SF''}\<close>, then \<open>UsageChunk 5 1\<close>,
  \<^verbatim>\<open>handleStreamingMessages\<close> writes exactly six frames: \<^verbatim>\<open>message_start\<close>;
  \<^verbatim>\<open>content_block_start\<close> of index 0 for a \<^verbatim>\<open>tool_use\<close> block with the call's id and
  name and the empty input; \<^verbatim>\<open>content_block_delta\<close> of index 0 with an
  \<^verbatim>\<open>input_json_delta\<close> whose \<^verbatim>\<open>partial_json\<close> is the serialisation of the whole
  arguments object; \<^verbatim>\<open>content_block_stop\<close> of index 0; \<^verbatim>\<open>message_delta\<close> with stop
  reason \<open>''tool_use''\<close> and 1 output token; \<^verbatim>\<open>message_stop\<close>.
\<close>

theorem scenario_C_tool_call_stream:
  "handleStreamingMessages stringify uuid model
     (Completed [ToolCallChunk ''t1'' ''get_weather'' (JObj [(''location'', JStr ''SF'')]),
                 UsageChunk 5 1]) =
   [MessageStart (''msg_'' @ uuid) model \<lparr>input_tokens = 0, output_tokens = 0\<rparr>,
    ContentBlockStart 0 (ToolUseBlock ''t1'' ''get_weather'' (JObj [])),
    ContentBlockDelta 0 (InputJsonDelta (stringify (JObj [(''location'', JStr ''SF'')]))),
    ContentBlockStop 0,
    MessageDelta ''tool_use'' 1,
    MessageStop]"
  by (simp add: messagesStream0_def finishMessages_def)


lemma streamBlocks_append:
  "streamBlocks f s (xs @ ys) =
     (case streamBlocks f s xs of
        (fs, s') \<Rightarrow> (case streamBlocks f s' ys of (gs, s'') \<Rightarrow> (fs @ gs, s'')))"
  by (induction xs arbitrary: s) (simp_all split: prod.split)

lemma streamBlocks_open:
  "currentBlockIsOpen (snd (streamBlocks f s es)) =
     (case dropWhile isUsage (rev es) of
        [] \<Rightarrow> currentBlockIsOpen s
      | TextChunk t # r \<Rightarrow> True
      | _ \<Rightarrow> False)"
proof (induction es rule: rev_induct)
  case Nil
  then show ?case by simp
next
  case (snoc x xs)
  obtain fs s' where xs: "streamBlocks f s xs = (fs, s')"
    by (cases "streamBlocks f s xs")
  with snoc show ?case
    by (cases x) (simp_all add: streamBlocks_append Let_def split: prod.split)
qed

lemma streamBlocks_open0:
  "streamBlocks f messagesStream0 es = (fs, s) \<Longrightarrow> currentBlockIsOpen s = textOpenAtEnd es"
proof -
  assume loop: "streamBlocks f messagesStream0 es = (fs, s)"
  define d where "d = dropWhile isUsage (rev es)"
  have "currentBlockIsOpen s =
     (case d of [] \<Rightarrow> currentBlockIsOpen messagesStream0 | TextChunk t # r \<Rightarrow> True | _ \<Rightarrow> False)"
    unfolding d_def using streamBlocks_open[of f messagesStream0 es] loop by simp
  moreover have "\<not> currentBlockIsOpen messagesStream0"
    by (simp add: messagesStream0_def)
  moreover have "textOpenAtEnd es = (case d of TextChunk t # r \<Rightarrow> True | _ \<Rightarrow> False)"
    unfolding d_def textOpenAtEnd_def by (rule refl)
  ultimately show ?thesis
    by (cases d) simp_all
qed

text \<open>
  Claim C3 (block index monotonicity), as amended. In every response, whether the backend
  run completes or throws, the indices of the \<^verbatim>\<open>content_block_start\<close> frames are
  \<open>0, 1, ..., n - 1\<close> in this order (strictly increasing, each once), and every
  \<^verbatim>\<open>content_block_stop\<close> and every \<^verbatim>\<open>content_block_delta\<close> comes after the
  \<^verbatim>\<open>content_block_start\<close> of its index. The \<^verbatim>\<open>content_block_stop\<close> frames carry the
  started indices in the same order, each once, when the run completes and also when it
  throws while no text block is open. When the run throws while a text block is open
  (the last event it yielded that is not a usage event is a text), the stops carry all
  started indices but the last, in order, each once: the last block is started and not
  stopped, and the stream ends with the \<^verbatim>\<open>error\<close> event.
\<close>

theorem block_index_monotonicity:
  assumes "fs = handleStreamingMessages stringify uuid model run"
  shows "startedIndices fs = [0..<length (startedIndices fs)] \<and>
         (\<forall>pre i post. fs = pre @ ContentBlockStop i # post \<longrightarrow>
             (\<exists>b. ContentBlockStart i b \<in> set pre)) \<and>
         (\<forall>pre i d post. fs = pre @ ContentBlockDelta i d # post \<longrightarrow>
             (\<exists>b. ContentBlockStart i b \<in> set pre)) \<and>
         stoppedIndices fs =
           (if throwsInOpenText run then butlast (startedIndices fs) else startedIndices fs) \<and>
         (throwsInOpenText run \<longrightarrow>
             startedIndices fs \<noteq> [] \<and> (\<exists>err. last fs = ErrorEvent ''api_error'' err))"
proof -
  obtain gs s where loop: "streamBlocks stringify messagesStream0 (yielded run) = (gs, s)"
    by (cases "streamBlocks stringify messagesStream0 (yielded run)")
  let ?start = "MessageStart (''msg_'' @ uuid) model \<lparr>input_tokens = 0, output_tokens = 0\<rparr>"
  let ?tail = "case run of Completed es \<Rightarrow> finishMessages s
                 | Failed es err \<Rightarrow> [ErrorEvent ''api_error'' err]"
  have fs: "fs = ?start # gs @ ?tail"
    using assms loop by (cases run) simp_all
  have zero: "nextStart messagesStream0 = 0" "contentBlockIndex messagesStream0 = 0"
    "openIndex messagesStream0 = {}"
    by (simp_all add: nextStart_def openIndex_def messagesStream0_def)
  from streamBlocks_indices[OF loop]
  have st: "startedIndices gs = [0..<nextStart s]"
    and sp: "stoppedIndices gs = [0..<contentBlockIndex s]"
    by (simp_all add: zero)
  have opn: "currentBlockIsOpen s = textOpenAtEnd (yielded run)"
    by (rule streamBlocks_open0[OF loop])
  have started: "startedIndices fs = [0..<nextStart s]"
    unfolding fs by (cases run) (simp_all add: startedIndices_append st finishMessages_def)
  have stopped: "stoppedIndices fs =
      (if throwsInOpenText run then [0..<contentBlockIndex s] else [0..<nextStart s])"
    unfolding fs using opn
    by (cases run) (simp_all add: stoppedIndices_append sp finishMessages_def nextStart_def)
  from streamBlocks_follow[OF loop]
  have fl: "stopsFollowStarts {} gs" and op: "openIndex s \<subseteq> set (startedIndices gs)"
    by (simp_all add: zero)
  have "stopsFollowStarts (set (startedIndices gs)) ?tail"
    using op by (cases run) (simp_all add: finishMessages_def openIndex_def split: if_splits)
  with fl have follow: "stopsFollowStarts {} fs"
    unfolding fs by (simp add: stopsFollowStarts_append)
  have a: "startedIndices fs = [0..<length (startedIndices fs)]"
    by (simp add: started)
  have b: "\<forall>pre i post. fs = pre @ ContentBlockStop i # post \<longrightarrow>
             (\<exists>b. ContentBlockStart i b \<in> set pre)"
    using stopsFollowStarts_stop[OF follow] by blast
  have c: "\<forall>pre i d post. fs = pre @ ContentBlockDelta i d # post \<longrightarrow>
             (\<exists>b. ContentBlockStart i b \<in> set pre)"
    using stopsFollowStarts_delta[OF follow] by blast
  have d: "stoppedIndices fs =
           (if throwsInOpenText run then butlast (startedIndices fs) else startedIndices fs)"
  proof (cases "throwsInOpenText run")
    case True
    then obtain es err where run: "run = Failed es err" "textOpenAtEnd es"
      by (cases run) simp_all
    with opn have "nextStart s = Suc (contentBlockIndex s)"
      by (simp add: nextStart_def)
    with True show ?thesis
      by (simp add: started stopped)
  next
    case False
    then show ?thesis
      by (simp add: started stopped)
  qed
  have e: "throwsInOpenText run \<longrightarrow>
             startedIndices fs \<noteq> [] \<and> (\<exists>err. last fs = ErrorEvent ''api_error'' err)"
  proof
    assume t: "throwsInOpenText run"
    then obtain es err where run: "run = Failed es err" "textOpenAtEnd es"
      by (cases run) simp_all
    with opn have "nextStart s = Suc (contentBlockIndex s)"
      by (simp add: nextStart_def)
    then have "startedIndices fs \<noteq> []"
      by (simp add: started)
    moreover have "last fs = ErrorEvent ''api_error'' err"
      unfolding fs run by simp
    ultimately show "startedIndices fs \<noteq> [] \<and> (\<exists>err. last fs = ErrorEvent ''api_error'' err)"
      by blast
  qed
  from a b c d e show ?thesis
    by blast
qed

text \<open>
  The theorem at the completed run that yields a text, a tool call and the usage (the
  second \<^verbatim>\<open>content_block_stop\<close> has index 1, and the start of index 1 stands before
  it), and at the run that throws after a tool call and a text (indices 0 and 1 are
  started, only 0 is stopped, and the error event ends the stream).
\<close>

theorem block_index_monotonicity_witness:
  "[MessageStart ''msg_u'' ''m'' \<lparr>input_tokens = 0, output_tokens = 0\<rparr>,
    ContentBlockStart 0 (TextBlock []),
    ContentBlockDelta 0 (TextDelta ''a''),
    ContentBlockStop 0,
    ContentBlockStart 1 (ToolUseBlock ''t1'' ''f'' (JObj [])),
    ContentBlockDelta 1 (InputJsonDelta ''{}'')]
   @ ContentBlockStop 1 # [MessageDelta ''tool_use'' 1, MessageStop]
   = handleStreamingMessages compactJson ''u'' ''m''
       (Completed [TextChunk ''a'', ToolCallChunk ''t1'' ''f'' (JObj []), UsageChunk 1 1]) \<and>
   (\<exists>b. ContentBlockStart 1 b \<in> set
      [MessageStart ''msg_u'' ''m'' \<lparr>input_tokens = 0, output_tokens = 0\<rparr>,
       ContentBlockStart 0 (TextBlock []),
       ContentBlockDelta 0 (TextDelta ''a''),
       ContentBlockStop 0,
       ContentBlockStart 1 (ToolUseBlock ''t1'' ''f'' (JObj [])),
       ContentBlockDelta 1 (InputJsonDelta ''{}'')]) \<and>
   throwsInOpenText (Failed [ToolCallChunk ''t1'' ''f'' (JObj []), TextChunk ''a''] ''boom'') \<and>
   startedIndices (handleStreamingMessages compactJson ''u'' ''m''
       (Failed [ToolCallChunk ''t1'' ''f'' (JObj []), TextChunk ''a''] ''boom'')) = [0, 1] \<and>
   stoppedIndices (handleStreamingMessages compactJson ''u'' ''m''
       (Failed [ToolCallChunk ''t1'' ''f'' (JObj []), TextChunk ''a''] ''boom'')) = [0] \<and>
   (\<exists>err. last (handleStreamingMessages compactJson ''u'' ''m''
       (Failed [ToolCallChunk ''t1'' ''f'' (JObj []), TextChunk ''a''] ''boom'')) =
       ErrorEvent ''api_error'' err)"
proof -
  let ?pre = "[MessageStart ''msg_u'' ''m'' \<lparr>input_tokens = 0, output_tokens = 0\<rparr>,
       ContentBlockStart 0 (TextBlock []),
       ContentBlockDelta 0 (TextDelta ''a''),
       ContentBlockStop 0,
       ContentBlockStart 1 (ToolUseBlock ''t1'' ''f'' (JObj [])),
       ContentBlockDelta 1 (InputJsonDelta ''{}'')]"
  let ?fs = "?pre @ ContentBlockStop 1 # [MessageDelta ''tool_use'' 1, MessageStop]"
  let ?failed = "Failed [ToolCallChunk ''t1'' ''f'' (JObj []), TextChunk ''a''] ''boom''"
  let ?gs = "handleStreamingMessages compactJson ''u'' ''m'' ?failed"
  have run: "?fs = handleStreamingMessages compactJson ''u'' ''m''
       (Completed [TextChunk ''a'', ToolCallChunk ''t1'' ''f'' (JObj []), UsageChunk 1 1])"
    by (simp add: messagesStream0_def finishMessages_def)
  from block_index_monotonicity[OF run]
  have "\<forall>pre i post. ?fs = pre @ ContentBlockStop i # post \<longrightarrow>
          (\<exists>b. ContentBlockStart i b \<in> set pre)"
    by blast
  then have a: "\<exists>b. ContentBlockStart 1 b \<in> set ?pre"
    by blast
  have t: "throwsInOpenText ?failed"
    by (simp add: textOpenAtEnd_def)
  have st: "startedIndices ?gs = [0, 1]"
    by (simp add: messagesStream0_def)
  from block_index_monotonicity[OF refl, of compactJson "''u''" "''m''" ?failed] t
  have sp: "stoppedIndices ?gs = butlast (startedIndices ?gs)"
    and er: "\<exists>err. last ?gs = ErrorEvent ''api_error'' err"
    by simp_all
  from sp st have sp': "stoppedIndices ?gs = [0]"
    by simp
  from run a t st sp' er show ?thesis
    by blast
qed

text \<open>
  The claim as stated, for every response, fails when the backend throws while a text
  block is open: the \<^verbatim>\<open>catch\<close> block writes the \<^verbatim>\<open>error\<close> event and closes the
  stream, so index 0 has a \<^verbatim>\<open>content_block_start\<close> and no \<^verbatim>\<open>content_block_stop\<close>.
\<close>

theorem block_index_monotonicity_counterexample:
  "handleStreamingMessages compactJson ''u'' ''m'' (Failed [TextChunk ''a''] ''boom'') =
     [MessageStart ''msg_u'' ''m'' \<lparr>input_tokens = 0, output_tokens = 0\<rparr>,
      ContentBlockStart 0 (TextBlock []),
      ContentBlockDelta 0 (TextDelta ''a''),
      ErrorEvent ''api_error'' ''boom''] \<and>
   startedIndices
     (handleStreamingMessages compactJson ''u'' ''m'' (Failed [TextChunk ''a''] ''boom'')) = [0] \<and>
   stoppedIndices
     (handleStreamingMessages compactJson ''u'' ''m'' (Failed [TextChunk ''a''] ''boom'')) = []"
  by (simp add: messagesStream0_def)

section \<open>Properties of the OpenAI streaming state machine\<close>


lemma streamChunk_later:
  "\<not> isFirstChunk s \<Longrightarrow> streamChunk f c t m s x = (fs, s') \<Longrightarrow>
     filter carriesRole fs = [] \<and> \<not> isFirstChunk s'"
  by (cases x) (auto simp: mkChunk_def)

lemma streamChunks_later:
  "\<not> isFirstChunk s \<Longrightarrow> streamChunks f c t m s es = (fs, s') \<Longrightarrow>
     filter carriesRole fs = []"
proof (induction es arbitrary: s fs s')
  case Nil
  then show ?case by simp
next
  case (Cons x xs)
  obtain f1 s1 where step: "streamChunk f c t m s x = (f1, s1)"
    by (cases "streamChunk f c t m s x")
  obtain f2 s2 where rest: "streamChunks f c t m s1 xs = (f2, s2)"
    by (cases "streamChunks f c t m s1 xs")
  from Cons.prems(2) step rest have fs: "fs = f1 @ f2"
    by simp
  from streamChunk_later[OF Cons.prems(1) step]
  have a: "filter carriesRole f1 = []" and b: "\<not> isFirstChunk s1"
    by simp_all
  from Cons.IH[OF b rest] a show ?case
    unfolding fs by simp
qed

lemma streamChunk_first:
  "isFirstChunk s \<Longrightarrow> \<not> isUsage x \<Longrightarrow> streamChunk f c t m s x = (fs, s') \<Longrightarrow>
     (\<exists>g gs. fs = g # gs \<and> isChunk g \<and> carriesRole g \<and> filter carriesRole gs = []) \<and>
     \<not> isFirstChunk s'"
  by (cases x) (auto simp: mkChunk_def)

lemma streamChunk_usage:
  "isUsage x \<Longrightarrow> streamChunk f c t m s x = (fs, s') \<Longrightarrow>
     filter carriesRole fs = [] \<and> s' = s"
  by (cases x) (auto simp: mkChunk_def)

lemma streamChunks_usage_only:
  "list_all isUsage es \<Longrightarrow> streamChunks f c t m s es = (fs, s') \<Longrightarrow>
     filter carriesRole fs = []"
proof (induction es arbitrary: s fs s')
  case Nil
  then show ?case by simp
next
  case (Cons x xs)
  obtain f1 s1 where step: "streamChunk f c t m s x = (f1, s1)"
    by (cases "streamChunk f c t m s x")
  obtain f2 s2 where rest: "streamChunks f c t m s1 xs = (f2, s2)"
    by (cases "streamChunks f c t m s1 xs")
  from Cons.prems(2) step rest have fs: "fs = f1 @ f2"
    by simp
  from Cons.prems(1) have x: "isUsage x" and xs: "list_all isUsage xs"
    by simp_all
  from streamChunk_usage[OF x step] Cons.IH[OF xs rest] show ?case
    unfolding fs by simp
qed

text \<open>
  When the first event the backend yields is a text or a tool call, the response starts
  with a chunk whose delta carries \<^verbatim>\<open>role: 'assistant'\<close>, and no later frame carries
  the role: exactly one chunk carries it, the first. When the backend yields nothing but
  usage events, no frame carries the role.
\<close>

theorem role_on_first_chunk:
  assumes "fs = handleStreamingChatCompletion stringify uuid now model run"
  shows "(\<forall>e es. yielded run = e # es \<and> \<not> isUsage e \<longrightarrow>
            (\<exists>g gs. fs = g # gs \<and> isChunk g \<and> carriesRole g \<and> filter carriesRole gs = [])) \<and>
         (list_all isUsage (yielded run) \<longrightarrow> filter carriesRole fs = [])"
proof -
  let ?c = "''chatcmpl-'' @ uuid"
  obtain gs s where loop: "streamChunks stringify ?c now model chatStream0 (yielded run) = (gs, s)"
    by (cases "streamChunks stringify ?c now model chatStream0 (yielded run)")
  obtain tl where tl: "fs = gs @ [tl]" "\<not> carriesRole tl"
    using assms loop by (cases run) auto
  have first: "isFirstChunk chatStream0"
    by (simp add: chatStream0_def)
  have "\<exists>g hs. fs = g # hs \<and> isChunk g \<and> carriesRole g \<and> filter carriesRole hs = []"
    if y: "yielded run = e # es" and e: "\<not> isUsage e" for e es
  proof -
    obtain f1 s1 where step: "streamChunk stringify ?c now model chatStream0 e = (f1, s1)"
      by (cases "streamChunk stringify ?c now model chatStream0 e")
    obtain f2 s2 where rest: "streamChunks stringify ?c now model s1 es = (f2, s2)"
      by (cases "streamChunks stringify ?c now model s1 es")
    from loop y step rest have gs: "gs = f1 @ f2"
      by simp
    from streamChunk_first[OF first e step] obtain g hs where
      f1: "f1 = g # hs" "isChunk g" "carriesRole g" "filter carriesRole hs = []"
      and s1: "\<not> isFirstChunk s1"
      by blast
    from streamChunks_later[OF s1 rest] have "filter carriesRole f2 = []" .
    with f1 tl have "fs = g # (hs @ f2 @ [tl])" "filter carriesRole (hs @ f2 @ [tl]) = []"
      unfolding gs by simp_all
    with f1 show ?thesis
      by blast
  qed
  moreover have "filter carriesRole fs = []" if "list_all isUsage (yielded run)"
    using streamChunks_usage_only[OF that loop] tl by simp
  ultimately show ?thesis
    by blast
qed


text \<open>
  For example, a run that starts with a text, and the run that yields the usage only.
\<close>

theorem role_on_first_chunk_example:
  "yielded (Completed [TextChunk ''Hi'', UsageChunk 1 1]) = TextChunk ''Hi'' # [UsageChunk 1 1] \<and>
   \<not> isUsage (TextChunk ''Hi'') \<and>
   (\<exists>g gs. handleStreamingChatCompletion compactJson ''u'' 0 ''m''
              (Completed [TextChunk ''Hi'', UsageChunk 1 1]) = g # gs \<and>
           isChunk g \<and> carriesRole g \<and> filter carriesRole gs = []) \<and>
   list_all isUsage (yielded (Completed [UsageChunk 3 2])) \<and>
   filter carriesRole
     (handleStreamingChatCompletion compactJson ''u'' 0 ''m'' (Completed [UsageChunk 3 2])) = []"
proof -
  have y: "yielded (Completed [TextChunk ''Hi'', UsageChunk 1 1]) = TextChunk ''Hi'' # [UsageChunk 1 1]"
    and e: "\<not> isUsage (TextChunk ''Hi'')"
    and u: "list_all isUsage (yielded (Completed [UsageChunk 3 2]))"
    by simp_all
  from role_on_first_chunk[where stringify = compactJson and uuid = "''u''" and now = 0
      and model = "''m''" and run = "Completed [TextChunk ''Hi'', UsageChunk 1 1]", OF refl] y e
  have a: "\<exists>g gs. handleStreamingChatCompletion compactJson ''u'' 0 ''m''
              (Completed [TextChunk ''Hi'', UsageChunk 1 1]) = g # gs \<and>
           isChunk g \<and> carriesRole g \<and> filter carriesRole gs = []"
    by blast
  from role_on_first_chunk[where stringify = compactJson and uuid = "''u''" and now = 0
      and model = "''m''" and run = "Completed [UsageChunk 3 2]", OF refl] u
  have b: "filter carriesRole
     (handleStreamingChatCompletion compactJson ''u'' 0 ''m'' (Completed [UsageChunk 3 2])) = []"
    by blast
  from y e a u b show ?thesis
    by blast
qed

text \<open>
  Claim C4 (first-chunk role) at the run without text and tool-call events, which the
  claim includes: the backend yields the usage event only. The response has one chunk,
  the final one, with an empty delta and the finish reason \<open>''stop''\<close>, followed by the
  terminator: no chunk carries the role, where the claim asks for exactly one, the first.
  The branch for the usage event writes its chunk without looking at
  \<^verbatim>\<open>isFirstChunk\<close>, unlike the branches for a text and for a tool call.
\<close>

theorem usage_only_run_has_no_role:
  "handleStreamingChatCompletion compactJson ''u'' 0 ''m'' (Completed [UsageChunk 3 2]) =
     [ChunkFrame \<lparr>chunk_id = ''chatcmpl-u'', chunk_object = ''chat.completion.chunk'',
                  chunk_created = 0, chunk_model = ''m'',
                  chunk_delta = \<lparr>delta_role = None, delta_content = None, delta_tool_calls = None\<rparr>,
                  chunk_finish_reason = Some ''stop''\<rparr>,
      DoneFrame] \<and>
   length (filter isChunk
     (handleStreamingChatCompletion compactJson ''u'' 0 ''m'' (Completed [UsageChunk 3 2]))) = 1 \<and>
   length (filter carriesRole
     (handleStreamingChatCompletion compactJson ''u'' 0 ''m'' (Completed [UsageChunk 3 2]))) = 0"
  by (simp add: chatStream0_def mkChunk_def)

section \<open>Properties of the inbound adapters\<close>

lemma pushToolCalls_eq:
  "pushToolCalls parse tcs (parts, log) =
     (parts @ [LanguageModelToolCallPart (call_id tc) (function_name tc) args.
                 tc \<leftarrow> tcs, Inr args \<leftarrow> [decodeArguments parse (function_arguments tc)]],
      log @ [Warn ''Failed to parse tool call arguments''
               [(''toolCallId'', call_id tc), (''error'', err)].
               tc \<leftarrow> tcs, Inl err \<leftarrow> [decodeArguments parse (function_arguments tc)]])"
  by (induction tcs arbitrary: parts log) (simp_all split: sum.split)

lemma openai_convert_messages:
  "fst (openai_convertToVsCodeLmMessages parse stringify ms) =
     [\<lparr>lm_role = mapRole (msg_role m), lm_content = fst (contentParts parse stringify m)\<rparr>.
        m \<leftarrow> ms, fst (contentParts parse stringify m) \<noteq> []]"
  by (induction ms) (auto split: prod.splits)

lemma openai_convert_log:
  "snd (openai_convertToVsCodeLmMessages parse stringify ms) =
     concat (map (\<lambda>m. snd (contentParts parse stringify m)) ms)"
  by (induction ms) (auto split: prod.splits)

lemma convertMessages_eq:
  "convertMessages ms =
     [\<lparr>lm_role = anthropicRole (am_role m), lm_content = messageParts (am_content m)\<rparr>.
        m \<leftarrow> ms, messageParts (am_content m) \<noteq> []]"
  by (induction ms) auto

lemma blocksParts_eq: "blocksParts bs = concat (map blockParts bs)"
  by (induction bs) simp_all

text \<open>
  Claim C7. For a message with a \<^verbatim>\<open>tool_calls\<close> array, the parts built are the leading
  part (tool result or text, if any) followed by one tool-call part for each tool call
  whose arguments decode, in the order of the array; a tool call whose arguments string
  \<^verbatim>\<open>JSON.parse\<close> rejects contributes no part and one warning in the log, with its id
  and the error. The exception does not leave the loop: the conversion of the request
  returns, with every message that has a part (in the order of the request) and with the
  warnings of all messages.
\<close>

theorem malformed_tool_call_skipped:
  assumes "msg_tool_calls m = Some tcs"
  shows "fst (contentParts parse stringify m) =
           leadingParts stringify m
           @ [LanguageModelToolCallPart (call_id tc) (function_name tc) args.
                tc \<leftarrow> tcs, Inr args \<leftarrow> [decodeArguments parse (function_arguments tc)]] \<and>
         snd (contentParts parse stringify m) =
           [Warn ''Failed to parse tool call arguments''
              [(''toolCallId'', call_id tc), (''error'', err)].
              tc \<leftarrow> tcs, Inl err \<leftarrow> [decodeArguments parse (function_arguments tc)]] \<and>
         fst (openai_convertToVsCodeLmMessages parse stringify ms) =
           [\<lparr>lm_role = mapRole (msg_role m'), lm_content = fst (contentParts parse stringify m')\<rparr>.
              m' \<leftarrow> ms, fst (contentParts parse stringify m') \<noteq> []] \<and>
         snd (openai_convertToVsCodeLmMessages parse stringify ms) =
           concat (map (\<lambda>m'. snd (contentParts parse stringify m')) ms)"
proof -
  have "contentParts parse stringify m = pushToolCalls parse tcs (leadingParts stringify m, [])"
    using assms by (cases tcs) (simp_all add: contentParts_def)
  then have "fst (contentParts parse stringify m) =
           leadingParts stringify m
           @ [LanguageModelToolCallPart (call_id tc) (function_name tc) args.
                tc \<leftarrow> tcs, Inr args \<leftarrow> [decodeArguments parse (function_arguments tc)]]"
    and "snd (contentParts parse stringify m) =
           [Warn ''Failed to parse tool call arguments''
              [(''toolCallId'', call_id tc), (''error'', err)].
              tc \<leftarrow> tcs, Inl err \<leftarrow> [decodeArguments parse (function_arguments tc)]]"
    by (simp_all add: pushToolCalls_eq)
  then show ?thesis
    using openai_convert_messages[of parse stringify ms]
      openai_convert_log[of parse stringify ms]
    by blast
qed


text \<open>
  The theorem at an assistant message with two tool calls, the first with malformed
  arguments: the second yields its part, the first a warning.
\<close>

theorem malformed_tool_call_skipped_witness:
  "msg_tool_calls
     \<lparr>msg_role = RoleAssistant, msg_content = ContentNull,
      msg_tool_calls = Some
        [\<lparr>call_id = ''c1'', function_name = ''f'', function_arguments = ArgumentsString ''{''\<rparr>,
         \<lparr>call_id = ''c2'', function_name = ''g'', function_arguments = ArgumentsString ''{}''\<rparr>],
      msg_tool_call_id = None\<rparr> =
   Some
     [\<lparr>call_id = ''c1'', function_name = ''f'', function_arguments = ArgumentsString ''{''\<rparr>,
      \<lparr>call_id = ''c2'', function_name = ''g'', function_arguments = ArgumentsString ''{}''\<rparr>] \<and>
   contentParts (parseFrom [(''{}'', JObj [])]) compactJson
     \<lparr>msg_role = RoleAssistant, msg_content = ContentNull,
      msg_tool_calls = Some
        [\<lparr>call_id = ''c1'', function_name = ''f'', function_arguments = ArgumentsString ''{''\<rparr>,
         \<lparr>call_id = ''c2'', function_name = ''g'', function_arguments = ArgumentsString ''{}''\<rparr>],
      msg_tool_call_id = None\<rparr> =
   ([LanguageModelToolCallPart ''c2'' ''g'' (JObj [])],
    [Warn ''Failed to parse tool call arguments''
       [(''toolCallId'', ''c1''), (''error'', ''Unexpected token'')]])"
proof -
  let ?tcs = "[\<lparr>call_id = ''c1'', function_name = ''f'', function_arguments = ArgumentsString ''{''\<rparr>,
         \<lparr>call_id = ''c2'', function_name = ''g'', function_arguments = ArgumentsString ''{}''\<rparr>]"
  let ?m = "\<lparr>msg_role = RoleAssistant, msg_content = ContentNull,
      msg_tool_calls = Some ?tcs, msg_tool_call_id = None\<rparr>"
  have h: "msg_tool_calls ?m = Some ?tcs"
    by simp
  from malformed_tool_call_skipped[OF h, of "parseFrom [(''{}'', JObj [])]" compactJson]
  have "fst (contentParts (parseFrom [(''{}'', JObj [])]) compactJson ?m) =
          [LanguageModelToolCallPart ''c2'' ''g'' (JObj [])]"
    and "snd (contentParts (parseFrom [(''{}'', JObj [])]) compactJson ?m) =
          [Warn ''Failed to parse tool call arguments''
             [(''toolCallId'', ''c1''), (''error'', ''Unexpected token'')]]"
    by (simp_all add: parseFrom_def leadingParts_def truthy_def)
  then have "contentParts (parseFrom [(''{}'', JObj [])]) compactJson ?m =
     ([LanguageModelToolCallPart ''c2'' ''g'' (JObj [])],
      [Warn ''Failed to parse tool call arguments''
         [(''toolCallId'', ''c1''), (''error'', ''Unexpected token'')]])"
    by (simp add: prod_eq_iff)
  with h show ?thesis
    by blast
qed










text \<open>
  Claim C9 (empty-turn dropping). Under both protocols the messages passed to the backend
  are the converted input messages that have at least one content part, in the order of
  the request (after the system message, for Anthropic): a message whose conversion
  yields no part is left out, and every message passed on has a part.
\<close>

theorem empty_turns_dropped:
  "fst (openai_convertToVsCodeLmMessages parse stringify ms) =
     [\<lparr>lm_role = mapRole (msg_role m), lm_content = fst (contentParts parse stringify m)\<rparr>.
        m \<leftarrow> ms, fst (contentParts parse stringify m) \<noteq> []] \<and>
   (\<forall>msg \<in> set (fst (openai_convertToVsCodeLmMessages parse stringify ms)). lm_content msg \<noteq> []) \<and>
   anthropic_convertToVsCodeLmMessages ams system =
     systemMessage system
     @ [\<lparr>lm_role = anthropicRole (am_role m), lm_content = messageParts (am_content m)\<rparr>.
          m \<leftarrow> ams, messageParts (am_content m) \<noteq> []] \<and>
   (\<forall>msg \<in> set (anthropic_convertToVsCodeLmMessages ams system). lm_content msg \<noteq> [])"
proof -
  have a: "\<forall>msg \<in> set (fst (openai_convertToVsCodeLmMessages parse stringify ms)).
             lm_content msg \<noteq> []"
    unfolding openai_convert_messages by auto
  have b: "\<forall>msg \<in> set (anthropic_convertToVsCodeLmMessages ams system). lm_content msg \<noteq> []"
    unfolding anthropic_convertToVsCodeLmMessages_def convertMessages_eq
    by (auto simp: systemMessage_def)
  show ?thesis
    using a b openai_convert_messages[of parse stringify ms] convertMessages_eq[of ams]
    unfolding anthropic_convertToVsCodeLmMessages_def by simp
qed

text \<open>
  The theorem at an OpenAI request whose first message has empty text, and at an Anthropic
  request whose first message holds an image only.
\<close>

theorem empty_turns_dropped_witness:
  "fst (openai_convertToVsCodeLmMessages (parseFrom []) compactJson
     [\<lparr>msg_role = RoleUser, msg_content = ContentString [],
       msg_tool_calls = None, msg_tool_call_id = None\<rparr>,
      \<lparr>msg_role = RoleUser, msg_content = ContentString ''Hi'',
       msg_tool_calls = None, msg_tool_call_id = None\<rparr>]) =
     [\<lparr>lm_role = User, lm_content = [LanguageModelTextPart ''Hi'']\<rparr>] \<and>
   lm_content \<lparr>lm_role = User, lm_content = [LanguageModelTextPart ''Hi'']\<rparr> \<noteq> [] \<and>
   anthropic_convertToVsCodeLmMessages
     [\<lparr>am_role = AnthropicUser, am_content = Inr [ImageBlock ''base64'' ''image/png'' ''AAAA'']\<rparr>,
      \<lparr>am_role = AnthropicAssistant, am_content = Inl ''Hello''\<rparr>]
     None =
     [\<lparr>lm_role = Assistant, lm_content = [LanguageModelTextPart ''Hello'']\<rparr>] \<and>
   lm_content \<lparr>lm_role = Assistant, lm_content = [LanguageModelTextPart ''Hello'']\<rparr> \<noteq> []"
proof -
  let ?ms = "[\<lparr>msg_role = RoleUser, msg_content = ContentString [],
       msg_tool_calls = None, msg_tool_call_id = None\<rparr>,
      \<lparr>msg_role = RoleUser, msg_content = ContentString ''Hi'',
       msg_tool_calls = None, msg_tool_call_id = None\<rparr>]"
  let ?ams = "[\<lparr>am_role = AnthropicUser, am_content = Inr [ImageBlock ''base64'' ''image/png'' ''AAAA'']\<rparr>,
      \<lparr>am_role = AnthropicAssistant, am_content = Inl ''Hello''\<rparr>]"
  let ?out = "\<lparr>lm_role = User, lm_content = [LanguageModelTextPart ''Hi'']\<rparr>"
  let ?aout = "\<lparr>lm_role = Assistant, lm_content = [LanguageModelTextPart ''Hello'']\<rparr>"
  note inst = empty_turns_dropped[of "parseFrom []" compactJson ?ms ?ams None]
  have a: "fst (openai_convertToVsCodeLmMessages (parseFrom []) compactJson ?ms) = [?out]"
    by (simp add: contentParts_def leadingParts_def truthy_def)
  have b: "anthropic_convertToVsCodeLmMessages ?ams None = [?aout]"
    by (simp add: anthropic_convertToVsCodeLmMessages_def systemMessage_def truthy_def)
  from inst a have c: "lm_content ?out \<noteq> []"
    by (metis list.set_intros(1))
  from inst b have d: "lm_content ?aout \<noteq> []"
    by (metis list.set_intros(1))
  from a b c d show ?thesis
    by blast
qed

section \<open>Properties of the backend adapter\<close>







section \<open>The revision without tool calls\<close>

text \<open>
  Where the earlier revision of the handlers agrees with the revision verified above, and
  where it does not.
\<close>

lemma collectText_text:
  "fst (collectText (t, i, out) es) = t @ concat [t'. TextChunk t' \<leftarrow> es]"
  by (induction "(t, i, out)" es arbitrary: t i out rule: collectText.induct) simp_all

lemma collectText_usage:
  "snd (collectText c (es @ [UsageChunk i out])) = (i, out)"
proof (induction c es rule: collectText.induct)
  case (1 c)
  then show ?case by (cases c) simp
qed simp_all

text \<open>
  On the run of scenario A the two revisions of \<^verbatim>\<open>handleChatCompletion\<close> return the
  same response, and both revisions report the usage of the final usage chunk.
\<close>

lemma text_only_scenario_A:
  "handleChatCompletion_text uuid now model
     (Completed [TextChunk ''Hello'', TextChunk '' there'', UsageChunk 3 2]) =
   handleChatCompletion stringify uuid now model
     (Completed [TextChunk ''Hello'', TextChunk '' there'', UsageChunk 3 2])"
  by (simp add: buildChatCompletion_def collected0_def textOrNull_def truthy_def)

lemma text_only_usage:
  "(\<exists>r. handleChatCompletion_text uuid now model (Completed (es @ [UsageChunk i out])) = Inr r \<and>
        prompt_tokens (resp_usage r) = i \<and> completion_tokens (resp_usage r) = out) \<and>
   (\<exists>r. handleMessages_text uuid' model' (Completed (es @ [UsageChunk i out])) = Inr r \<and>
        input_tokens (mr_usage r) = i \<and> output_tokens (mr_usage r) = out)"
proof -
  obtain t where "collectText ([], 0, 0) (es @ [UsageChunk i out]) = (t, i, out)"
    using collectText_usage[of "([], 0, 0)" es i out]
    by (cases "collectText ([], 0, 0) (es @ [UsageChunk i out])") simp
  then show ?thesis
    by simp
qed

text \<open>
  The earlier \<^verbatim>\<open>handleMessages\<close> always returns one text block, empty or not, and the
  stop reason \<open>''end_turn''\<close>; tool-call chunks leave no trace in its response.
\<close>

lemma text_only_messages_content:
  "\<exists>r. handleMessages_text uuid model (Completed es) = Inr r \<and>
     mr_content r = [TextBlock (concat [t. TextChunk t \<leftarrow> es])] \<and>
     mr_stop_reason r = ''end_turn''"
proof -
  obtain t i out where c: "collectText ([], 0, 0) es = (t, i, out)"
    by (cases "collectText ([], 0, 0) es")
  with collectText_text[of "[]" 0 0 es] have "t = concat [t. TextChunk t \<leftarrow> es]"
    by simp
  with c show ?thesis
    by simp
qed

text \<open>
  The earlier \<^verbatim>\<open>handleStreamingMessages\<close> has the one block of index 0, started once
  and, when the backend run completes, stopped once; when the backend throws, the block
  is not stopped. A tool-call chunk writes no frame: on the run of scenario C the
  response holds an empty text block.
\<close>

lemma textDeltas_indices:
  "startedIndices (textDeltas es) = [] \<and> stoppedIndices (textDeltas es) = []"
  by (induction es rule: textDeltas.induct) simp_all

lemma text_only_block_indices:
  "startedIndices (handleStreamingMessages_text uuid model (Completed es)) = [0] \<and>
   stoppedIndices (handleStreamingMessages_text uuid model (Completed es)) = [0] \<and>
   startedIndices (handleStreamingMessages_text uuid model (Failed es err)) = [0] \<and>
   stoppedIndices (handleStreamingMessages_text uuid model (Failed es err)) = []"
  by (simp add: startedIndices_append stoppedIndices_append textDeltas_indices)

lemma text_only_scenario_C:
  "handleStreamingMessages_text uuid model
     (Completed [ToolCallChunk ''t1'' ''get_weather'' (JObj [(''location'', JStr ''SF'')]),
                 UsageChunk 5 1]) =
   [MessageStart (''msg_'' @ uuid) model \<lparr>input_tokens = 0, output_tokens = 0\<rparr>,
    ContentBlockStart 0 (TextBlock []),
    ContentBlockStop 0,
    MessageDelta ''end_turn'' 1,
    MessageStop]"
  by simp

text \<open>
  The earlier OpenAI adapter passes on exactly the messages with a non-empty text, each
  with that text as its one part. The earlier Anthropic adapter does not translate
  tool-result blocks: a message that holds nothing else is left out.
\<close>

lemma text_only_openai_convert:
  "openai_convertToVsCodeLmMessages_text ms =
     [\<lparr>lm_role = mapRole (msg_role m),
       lm_content = [LanguageModelTextPart (textContent (msg_content m))]\<rparr>.
        m \<leftarrow> ms, textContent (msg_content m) \<noteq> []]"
  by (induction ms) (simp_all add: truthy_def)

lemma text_only_tool_result:
  "anthropic_convertToVsCodeLmMessages_text
     [\<lparr>am_role = AnthropicUser,
       am_content = Inr [ToolResultBlock ''t1'' (Inr [TextBlock ''a'', TextBlock ''b''])]\<rparr>]
     None = []"
  by (simp add: anthropic_convertToVsCodeLmMessages_text_def systemMessage_def truthy_def)

end
